theory Spec2Isabelle
  imports Complex_Main "HOL-Library.AList"
begin

section \<open>The opensolar investment and payback contract (core/contract.go)\<close>

text \<open>
  A shallow embedding of the functions of \<^verbatim>\<open>core/contract.go\<close> that the lifecycle
  claims are about. Conventions:
  \<^item> Go's \<^verbatim>\<open>float64\<close> amounts are modelled by \<^typ>\<open>real\<close>: the properties below are
    about control flow, comparisons and the algebraic shape of the updates, not about
    rounding, infinities or NaN.
  \<^item> Go's \<^verbatim>\<open>int\<close> indices and Unix times are \<^typ>\<open>int\<close>.
  \<^item> A Go \<^verbatim>\<open>map[string]float64\<close> is an association list with \<open>AList.update\<close> as
    assignment; the list order stands for the (unspecified) iteration order of the map.
  \<^item> An \<^verbatim>\<open>error\<close> is a value of the datatype \<open>error\<close>; a function returning
    \<^verbatim>\<open>error\<close> returns \<open>error option\<close> (\<open>None\<close> is \<^verbatim>\<open>nil\<close>), one returning
    \<^verbatim>\<open>(T, error)\<close> returns \<open>error + T\<close>.
  \<^item> The database and every effect on the outside world are explicit: a \<open>world\<close> holds
    the four buckets and the log of effects (\<open>events\<close>) in the order they happen.
  \<^item> The chain service, the wallet, the issuer, the escrow and the munibond functions
    are collaborators outside this file: they are the fields of an \<open>env\<close> record, one
    oracle per collaborator function, each answering with the result of the call.
\<close>

subsection \<open>Data model\<close>

datatype error = New string | Wrap error string

text \<open>
  Modelled from the spec: the declarations of \<^verbatim>\<open>User\<close>, \<^verbatim>\<open>Investor\<close>,
  \<^verbatim>\<open>Recipient\<close>, \<^verbatim>\<open>Entity\<close> and \<^verbatim>\<open>Project\<close> are not part of the sources at
  hand; the records below carry the fields that \<^verbatim>\<open>contract.go\<close> reads or writes.
\<close>

record User =
  UIndex :: int
  UName :: string
  UEmail :: string
  UNotification :: bool
  UKyc :: bool
  UBanned :: bool
  PublicKey :: string
  EncryptedSeed :: string

record Investor =
  InvU :: User
  VotingBalance :: real

record Recipient =
  RecpU :: User

record Entity =
  EntU :: User
  FirstLossGuaranteeAmt :: real
  FirstLossGuarantee :: string

record Project =
  Index :: int
  Stage :: int
  TotalValue :: real
  MoneyRaised :: real
  SeedMoneyRaised :: real
  SeedInvestmentFactor :: real
  SeedInvestmentCap :: real
  BalLeft :: real
  AmountOwed :: real
  OwnershipShift :: real
  InterestRate :: real
  InvestorIndices :: "int list"
  InvestorMap :: "(string \<times> real) list"
  Lock :: bool
  LockPwd :: string
  EscrowPubkey :: string
  EscrowLock :: bool
  DateLastPaid :: int
  InvestmentType :: string
  Chain :: string
  SeedAssetCode :: string
  InvestorAssetCode :: string
  DebtAssetCode :: string
  PaybackAssetCode :: string
  Metadata :: string
  GuarantorIndex :: int
  RecipientIndex :: int
  OriginatorIndex :: int
  EstimatedAcquisition :: int
  PaybackPeriod :: int

text \<open>The value of \<^verbatim>\<open>var project Project\<close>: every field at its Go zero value.\<close>

definition zeroProject :: Project where
  "zeroProject = \<lparr>Index = 0, Stage = 0, TotalValue = 0, MoneyRaised = 0,
     SeedMoneyRaised = 0, SeedInvestmentFactor = 0, SeedInvestmentCap = 0, BalLeft = 0,
     AmountOwed = 0, OwnershipShift = 0, InterestRate = 0, InvestorIndices = [],
     InvestorMap = [], Lock = False, LockPwd = [], EscrowPubkey = [],
     EscrowLock = False, DateLastPaid = 0, InvestmentType = [], Chain = [],
     SeedAssetCode = [], InvestorAssetCode = [], DebtAssetCode = [],
     PaybackAssetCode = [], Metadata = [], GuarantorIndex = 0, RecipientIndex = 0,
     OriginatorIndex = 0, EstimatedAcquisition = 0, PaybackPeriod = 0\<rparr>"

text \<open>
  The effects of the contract on the outside world, in the order of the source:
  notifications, sleeps, background tasks started with \<^verbatim>\<open>go\<close>, and the calls that
  move funds or assets (each recorded when the call is made, whatever its result).
\<close>

datatype event =
    SendRecpNotFoundEmail int int
  | SendUnlockNotifToRecipient int string
  | SleepOneHour
  | SleepOneWeek
  | GoSendRecipientAssets int
  | GoMonitorPaybacks int int
  | InitIssuerCall int
  | FundIssuerCall int
  | MunibondInvestCall int string real int string real real bool
  | InitEscrowCall int string string
  | TransferFundsToEscrowCall real int string
  | MunibondReceiveCall int int string string int string real int
  | MunibondPaybackCall int real string int string
  | LogEscrowLocked int
  | SendFundsFromEscrowCall string string string real
  | LogPaybackError string
  | SendAssetCall bool string real string
  | SendNicePaybackAlertEmail int string
  | SendSternPaybackAlertEmail int string
  | SendSternPaybackAlertEmailI int string
  | SendSternPaybackAlertEmailG int string
  | SendDisconnectionEmailI int string
  | SendDisconnectionEmailG int string

record world =
  projects :: "int \<rightharpoonup> Project"
  investors :: "int \<rightharpoonup> Investor"
  recipients :: "int \<rightharpoonup> Recipient"
  entities :: "int \<rightharpoonup> Entity"
  events :: "event list"

text \<open>
  The collaborators. \<open>SaveOk\<close> says whether \<^verbatim>\<open>project.Save()\<close> succeeds;
  \<open>RecipientsAfterBackoff\<close> is the recipient bucket as it stands after the one-hour
  sleep of \<^verbatim>\<open>sendRecipientNotification\<close> (another task may have written it);
  \<open>Mainnet\<close>, \<open>LockInterval\<close> and \<open>OneWeekInSecond\<close> are the constants of package
  \<^verbatim>\<open>consts\<close>; the four thresholds are the package variables read by
  \<^verbatim>\<open>monitorPaybacks\<close>, declared outside the sources at hand.
\<close>

record env =
  SaveOk :: "Project \<Rightarrow> bool"
  CanInvest :: "Investor \<Rightarrow> real \<Rightarrow> bool"
  ReturnPubkey :: "string \<Rightarrow> string option"
  AccountExists :: "string \<Rightarrow> bool"
  AssetID :: "string \<Rightarrow> string"
  InvestorAssetPrefix :: string
  DebtAssetPrefix :: string
  PaybackAssetPrefix :: string
  InitIssuer :: "int \<Rightarrow> bool"
  FundIssuer :: "int \<Rightarrow> bool"
  MunibondInvest :: "int \<Rightarrow> string \<Rightarrow> real \<Rightarrow> int \<Rightarrow> string \<Rightarrow> real \<Rightarrow> real \<Rightarrow> bool \<Rightarrow> bool"
  GetAssetBalance :: "string \<Rightarrow> string \<Rightarrow> real option"
  RecipientsAfterBackoff :: "int \<rightharpoonup> Recipient"
  DecryptSeed :: "string \<Rightarrow> string \<Rightarrow> string option"
  InitEscrow :: "int \<Rightarrow> string \<Rightarrow> string \<Rightarrow> string option"
  TransferFundsToEscrow :: "real \<Rightarrow> int \<Rightarrow> string \<Rightarrow> bool"
  MunibondReceive :: "int \<Rightarrow> int \<Rightarrow> string \<Rightarrow> string \<Rightarrow> int \<Rightarrow> string \<Rightarrow> real \<Rightarrow> int \<Rightarrow> bool"
  MunibondPayback :: "int \<Rightarrow> real \<Rightarrow> string \<Rightarrow> int \<Rightarrow> string \<Rightarrow> int list \<Rightarrow> real \<Rightarrow> string \<Rightarrow> real option"
  SendFundsFromEscrow :: "string \<Rightarrow> string \<Rightarrow> string \<Rightarrow> real \<Rightarrow> bool"
  SendAsset :: "bool \<Rightarrow> string \<Rightarrow> real \<Rightarrow> string \<Rightarrow> bool"
  Mainnet :: bool
  LockInterval :: int
  MonthlyBill :: real
  OneWeekInSecond :: int
  NormalThreshold :: real
  AlertThreshold :: real
  SternAlertThreshold :: real
  DisconnectionThreshold :: real

subsection \<open>The ledger accessor\<close>

definition emit :: "event \<Rightarrow> world \<Rightarrow> world" where
  "emit e w = w\<lparr>events := events w @ [e]\<rparr>"

text \<open>
  Modelled from the spec: \<^verbatim>\<open>RetrieveProject\<close>, \<^verbatim>\<open>RetrieveInvestor\<close>,
  \<^verbatim>\<open>RetrieveRecipient\<close>, \<^verbatim>\<open>RetrieveEntity\<close> and \<^verbatim>\<open>Save\<close> are the ledger accessor,
  a key-value store keyed by index and not part of the sources at hand. A lookup of a
  missing record fails; \<^verbatim>\<open>RetrieveProject\<close> returns Go's pair, whose first component
  is the zero-valued project when the lookup fails.
\<close>

definition RetrieveProject :: "world \<Rightarrow> int \<Rightarrow> Project \<times> error option" where
  "RetrieveProject w key =
     (case projects w key of
        None \<Rightarrow> (zeroProject, Some (New ''error while retrieving key from bucket''))
      | Some p \<Rightarrow> (p, None))"

definition RetrieveInvestor :: "world \<Rightarrow> int \<Rightarrow> error + Investor" where
  "RetrieveInvestor w key =
     (case investors w key of
        None \<Rightarrow> Inl (New ''error while retrieving key from bucket'')
      | Some i \<Rightarrow> Inr i)"

definition RetrieveRecipient :: "(int \<rightharpoonup> Recipient) \<Rightarrow> int \<Rightarrow> error + Recipient" where
  "RetrieveRecipient bucket key =
     (case bucket key of
        None \<Rightarrow> Inl (New ''error while retrieving key from bucket'')
      | Some r \<Rightarrow> Inr r)"

definition RetrieveEntity :: "world \<Rightarrow> int \<Rightarrow> error + Entity" where
  "RetrieveEntity w key =
     (case entities w key of
        None \<Rightarrow> Inl (New ''error while retrieving key from bucket'')
      | Some e \<Rightarrow> Inr e)"

definition Save :: "env \<Rightarrow> Project \<Rightarrow> world \<Rightarrow> error option \<times> world" where
  "Save env project w =
     (if SaveOk env project
      then (None, w\<lparr>projects := (projects w)(Index project \<mapsto> project)\<rparr>)
      else (Some (New ''error while saving project''), w))"

subsection \<open>Investment accounting\<close>

text \<open>
  \<^verbatim>\<open>preInvestmentCheck\<close>. The two last branches of the source return
  \<^verbatim>\<open>errors.Wrap(err, ...)\<close> with \<^verbatim>\<open>err == nil\<close>, which is \<^verbatim>\<open>nil\<close>: for a chain other
  than stellar the check succeeds and the callers reject the chain themselves.
\<close>

definition preInvestmentCheck ::
  "env \<Rightarrow> world \<Rightarrow> int \<Rightarrow> int \<Rightarrow> real \<Rightarrow> string \<Rightarrow> (error + Project) \<times> world" where
  "preInvestmentCheck env w projIndex invIndex invAmount seed =
     (case RetrieveProject w projIndex of
        (project, Some err) \<Rightarrow> (Inl (Wrap err ''couldn't retrieve project''), w)
      | (project, None) \<Rightarrow>
     (case RetrieveInvestor w invIndex of
        Inl err \<Rightarrow> (Inl (Wrap err ''couldn't retrieve investor''), w)
      | Inr investor \<Rightarrow>
     if \<not> CanInvest env investor invAmount
     then (Inl (New ''Investor has less balance than what is required to invest in this project''), w)
     else
     (case ReturnPubkey env seed of
        None \<Rightarrow> (Inl (Wrap (New ''pubkey'') ''could not get pubkey from seed''), w)
      | Some pubkey \<Rightarrow>
     if \<not> AccountExists env pubkey
     then (Inl (New ''account doesn't exist yet, quitting''), w)
     else if invAmount > TotalValue project - MoneyRaised project
     then (Inl (New ''Investment amount greater than what is required! Adjust your investment''), w)
     else if Chain project = ''stellar'' \<or> Chain project = ''''
     then
       (if SeedAssetCode project = '''' \<and> InvestorAssetCode project = ''''
        then
          (let project = project\<lparr>InvestorAssetCode :=
                 AssetID env (InvestorAssetPrefix env @ Metadata project)\<rparr>
           in case Save env project w of
                (Some err, w) \<Rightarrow> (Inl (Wrap err ''couldn't save project''), w)
              | (None, w) \<Rightarrow>
                (let w = emit (InitIssuerCall projIndex) w in
                 if \<not> InitIssuer env projIndex
                 then (Inl (Wrap (New ''issuer'') ''error while initializing issuer''), w)
                 else
                   (let w = emit (FundIssuerCall projIndex) w in
                    if \<not> FundIssuer env projIndex
                    then (Inl (Wrap (New ''issuer'') ''error while funding issuer''), w)
                    else (Inr project, w))))
        else (Inr project, w))
     else (Inr project, w))))"

text \<open>\<^verbatim>\<open>sendRecipientNotification\<close>: one retry of the lookup after the backoff.\<close>

definition sendRecipientNotification :: "env \<Rightarrow> Project \<Rightarrow> world \<Rightarrow> error option \<times> world" where
  "sendRecipientNotification env project w =
     (case RetrieveRecipient (recipients w) (RecipientIndex project) of
        Inr recipient \<Rightarrow>
          (None, emit (SendUnlockNotifToRecipient (Index project) (UEmail (RecpU recipient))) w)
      | Inl _ \<Rightarrow>
          (let w = emit (SendRecpNotFoundEmail (Index project) (RecipientIndex project)) w;
               w = emit SleepOneHour w
           in case RetrieveRecipient (RecipientsAfterBackoff env) (RecipientIndex project) of
                Inl err \<Rightarrow> (Some (Wrap err ''couldn't retrieve recipient''), w)
              | Inr recipient \<Rightarrow>
                  (None, emit (SendUnlockNotifToRecipient (Index project)
                                 (UEmail (RecpU recipient))) w)))"

text \<open>
  The loop of \<^verbatim>\<open>updateAfterInvestment\<close> over \<^verbatim>\<open>project.InvestorIndices\<close>: a failed
  investor lookup returns; a failed balance query counts as balance 0. The source
  divides by \<^verbatim>\<open>project.TotalValue\<close> without a test: with \<open>TotalValue = 0\<close> the
  \<^verbatim>\<open>float64\<close> quotient is an infinity or NaN, which \<^typ>\<open>real\<close> does not have, so the
  share the model records says nothing about the code there, and the statement below
  that a recorded share is 0 assumes \<open>TotalValue \<noteq> 0\<close>.
\<close>

fun recomputeInvestorMap ::
  "env \<Rightarrow> world \<Rightarrow> Project \<Rightarrow> int list \<Rightarrow> error + Project" where
  "recomputeInvestorMap env w project [] = Inr project"
| "recomputeInvestorMap env w project (i # rest) =
     (case RetrieveInvestor w i of
        Inl err \<Rightarrow> Inl (Wrap err ''error while retrieving investors, quitting'')
      | Inr investor \<Rightarrow>
          (let balance1 = (case GetAssetBalance env (PublicKey (InvU investor))
                                  (InvestorAssetCode project) of
                             None \<Rightarrow> 0 | Some b \<Rightarrow> b);
               balance2 = (case GetAssetBalance env (PublicKey (InvU investor))
                                  (SeedAssetCode project) of
                             None \<Rightarrow> 0 | Some b \<Rightarrow> b);
               balance = balance1 + balance2;
               percentageInvestment = balance / TotalValue project
           in recomputeInvestorMap env w
                (project\<lparr>InvestorMap := AList.update (PublicKey (InvU investor))
                            percentageInvestment (InvestorMap project)\<rparr>) rest))"

text \<open>
  The block of \<^verbatim>\<open>updateAfterInvestment\<close> that runs when the project has raised its
  whole value: lock, save, notify the recipient, start \<^verbatim>\<open>sendRecipientAssets\<close> as a
  goroutine. It has no other guard than \<^verbatim>\<open>project.MoneyRaised == project.TotalValue\<close>.
\<close>

definition fundingComplete :: "env \<Rightarrow> Project \<Rightarrow> world \<Rightarrow> (error + Project) \<times> world" where
  "fundingComplete env project w =
     (if MoneyRaised project = TotalValue project
      then (let project = project\<lparr>Lock := True\<rparr>
            in case Save env project w of
                 (Some err, w) \<Rightarrow> (Inl (Wrap err ''couldn't save project''), w)
               | (None, w) \<Rightarrow>
                 (case sendRecipientNotification env project w of
                    (Some err, w) \<Rightarrow>
                      (Inl (Wrap err ''error while sending notifications to recipient''), w)
                  | (None, w) \<Rightarrow>
                      (Inr project, emit (GoSendRecipientAssets (Index project)) w)))
      else (Inr project, w))"

text \<open>
  \<^verbatim>\<open>updateAfterInvestment\<close>. The method mutates \<^verbatim>\<open>*project\<close>; the model returns the
  world, in which every successful \<^verbatim>\<open>Save\<close> has stored the project as it then was.
  The allocation of an empty \<^verbatim>\<open>InvestorMap\<close> with \<^verbatim>\<open>make\<close> leaves the association list
  as it is.
\<close>

definition updateAfterInvestment ::
  "env \<Rightarrow> Project \<Rightarrow> real \<Rightarrow> int \<Rightarrow> bool \<Rightarrow> world \<Rightarrow> error option \<times> world" where
  "updateAfterInvestment env project invAmount invIndex seed w =
     (let project = project\<lparr>MoneyRaised := MoneyRaised project + invAmount\<rparr>;
          project = (if seed
                     then project\<lparr>SeedMoneyRaised := SeedMoneyRaised project
                            + invAmount * (SeedInvestmentFactor project - 1)\<rparr>
                     else project);
          project = project\<lparr>InvestorIndices := InvestorIndices project @ [invIndex]\<rparr>
      in case Save env project w of
           (Some err, w) \<Rightarrow> (Some (Wrap err ''couldn't save project''), w)
         | (None, w) \<Rightarrow>
      (case fundingComplete env project w of
         (Inl err, w) \<Rightarrow> (Some err, w)
       | (Inr project, w) \<Rightarrow>
      (case recomputeInvestorMap env w project (InvestorIndices project) of
         Inl err \<Rightarrow> (Some err, w)
       | Inr project \<Rightarrow>
      (case Save env project w of
         (Some err, w) \<Rightarrow> (Some (Wrap err ''error while saving project, quitting''), w)
       | (None, w) \<Rightarrow> (None, w)))))"

text \<open>
  \<^verbatim>\<open>SeedInvest\<close> and \<^verbatim>\<open>Invest\<close>. Modelled from the spec: \<^verbatim>\<open>MunibondInvest\<close>
  (the chain-side issue of the investment instrument) is not part of the sources at
  hand; it is the oracle \<open>MunibondInvest\<close>, which succeeds or fails and leaves the
  project bucket alone.
\<close>

definition SeedInvest ::
  "env \<Rightarrow> world \<Rightarrow> int \<Rightarrow> int \<Rightarrow> real \<Rightarrow> string \<Rightarrow> error option \<times> world" where
  "SeedInvest env w projIndex invIndex invAmount invSeed =
     (case preInvestmentCheck env w projIndex invIndex invAmount invSeed of
        (Inl err, w) \<Rightarrow> (Some (Wrap err ''error while performing pre investment check''), w)
      | (Inr project, w) \<Rightarrow>
     if Stage project \<noteq> 1 \<and> Stage project \<noteq> 2
     then (Some (New ''project stage not at 1, you either have passed the seed stage or project is not at seed stage yet''), w)
     else if InvestmentType project \<noteq> ''munibond''
     then (Some (New ''investment models other than munibonds are not supported right now, quitting''), w)
     else if SeedInvestmentCap project < invAmount
     then (Some (New ''you can't invest more than what the seed investment cap permits you to, quitting''), w)
     else if Chain project = ''stellar'' \<or> Chain project = ''''
     then
       (let project = (if SeedAssetCode project = ''''
                       then project\<lparr>SeedAssetCode := ''SEEDASSET''\<rparr> else project);
            w = emit (MunibondInvestCall invIndex invSeed invAmount projIndex
                        (SeedAssetCode project) (TotalValue project)
                        (SeedInvestmentFactor project) True) w
        in if \<not> MunibondInvest env invIndex invSeed invAmount projIndex
                  (SeedAssetCode project) (TotalValue project)
                  (SeedInvestmentFactor project) True
           then (Some (Wrap (New ''munibond'') ''error while investing''), w)
           else
             (case updateAfterInvestment env project invAmount invIndex True w of
                (Some err, w) \<Rightarrow>
                  (Some (Wrap err ''couldn't update project after investment''), w)
              | (None, w) \<Rightarrow> (None, w)))
     else (Some (New ''other chain investments not supported  yet''), w))"

definition Invest ::
  "env \<Rightarrow> world \<Rightarrow> int \<Rightarrow> int \<Rightarrow> real \<Rightarrow> string \<Rightarrow> error option \<times> world" where
  "Invest env w projIndex invIndex invAmount invSeed =
     (case preInvestmentCheck env w projIndex invIndex invAmount invSeed of
        (Inl err, w) \<Rightarrow> (Some (Wrap err ''pre investment check failed''), w)
      | (Inr project, w) \<Rightarrow>
     if InvestmentType project \<noteq> ''munibond''
     then (Some (New ''other investment models are not supported right now, quitting''), w)
     else if Chain project = ''stellar'' \<or> Chain project = ''''
     then
       (if Stage project \<noteq> 4
        then (if Stage project = 1 \<or> Stage project = 2
              then SeedInvest env w projIndex invIndex invAmount invSeed
              else (Some (New ''project not at stage where it can solicit investment, quitting''), w))
        else
          (let w = emit (MunibondInvestCall invIndex invSeed invAmount projIndex
                           (InvestorAssetCode project) (TotalValue project) 1 False) w
           in if \<not> MunibondInvest env invIndex invSeed invAmount projIndex
                     (InvestorAssetCode project) (TotalValue project) 1 False
              then (Some (Wrap (New ''munibond'') ''error while investing''), w)
              else
                (case updateAfterInvestment env project invAmount invIndex False w of
                   (Some err, w) \<Rightarrow>
                     (Some (Wrap err ''failed to update project after investment''), w)
                 | (None, w) \<Rightarrow> (None, w))))
     else (Some (New ''other chain investments not supported right now''), w))"

subsection \<open>Escrow release pipeline\<close>

text \<open>
  Modelled from the spec: \<^verbatim>\<open>Stage5\<close> is declared outside the sources at hand; the
  source sets \<^verbatim>\<open>Stage5.Number\<close> with the comment ``set to stage 5''.
\<close>

definition Stage5_Number :: int where
  "Stage5_Number = 5"

text \<open>
  The wait loop of \<^verbatim>\<open>sendRecipientAssets\<close>. Every evaluation of the loop condition
  reads the clock, and every iteration reads the project bucket, which
  \<^verbatim>\<open>UnlockProject\<close> writes from another task: \<open>polls\<close> lists, for the successive
  evaluations of the condition, the clock and the bucket as they stand then. The loop
  ends with an error, with the lock seen open, or with the interval elapsed; the result is
  \<open>None\<close> when the list ends before the loop does.
\<close>

fun waitForUnlock ::
  "int \<Rightarrow> int \<Rightarrow> int \<Rightarrow> (int \<times> (int \<rightharpoonup> Project)) list \<Rightarrow> error option option" where
  "waitForUnlock startTime lockInterval projIndex [] = None"
| "waitForUnlock startTime lockInterval projIndex ((now, bucket) # later) =
     (if now - startTime < lockInterval
      then (case bucket projIndex of
              None \<Rightarrow> Some (Some (Wrap (New ''error while retrieving key from bucket'')
                                   ''Couldn't retrieve project''))
            | Some project \<Rightarrow>
                if \<not> Lock project then Some None
                else waitForUnlock startTime lockInterval projIndex later)
      else Some None)"

text \<open>\<^verbatim>\<open>updateProjectAfterAcceptance\<close>.\<close>

definition updateProjectAfterAcceptance :: "env \<Rightarrow> Project \<Rightarrow> world \<Rightarrow> error option \<times> world" where
  "updateProjectAfterAcceptance env project w =
     (let project = project\<lparr>BalLeft := TotalValue project + SeedMoneyRaised project\<rparr>;
          project = project\<lparr>Stage := Stage5_Number\<rparr>
      in case Save env project w of
           (Some err, w) \<Rightarrow> (Some (Wrap err ''couldn't save project''), w)
         | (None, w) \<Rightarrow>
             (None, emit (GoMonitorPaybacks (RecipientIndex project) (Index project)) w))"

text \<open>
  \<^verbatim>\<open>sendRecipientAssets\<close>, from the lookup that follows the wait loop (``lock is
  open, retrieve project and transfer assets''). The source reaches this point when the
  loop has seen the lock open and also when the interval has elapsed. \<open>w\<close> is the world
  at that point.
\<close>

definition releaseAssets :: "env \<Rightarrow> world \<Rightarrow> int \<Rightarrow> error option \<times> world" where
  "releaseAssets env w projIndex =
     (case RetrieveProject w projIndex of
        (project, Some err) \<Rightarrow> (Some (Wrap err ''Couldn't retrieve project''), w)
      | (project, None) \<Rightarrow>
     (case RetrieveRecipient (recipients w) (RecipientIndex project) of
        Inl err \<Rightarrow> (Some (Wrap err ''couldn't retrieve recipienrt''), w)
      | Inr recipient \<Rightarrow>
     (case DecryptSeed env (EncryptedSeed (RecpU recipient)) (LockPwd project) of
        None \<Rightarrow> (Some (Wrap (New ''seed'') ''couldn't decrypt seed''), w)
      | Some recpSeed \<Rightarrow>
     (let w = emit (InitEscrowCall (Index project) (PublicKey (RecpU recipient)) recpSeed) w
      in case InitEscrow env (Index project) (PublicKey (RecpU recipient)) recpSeed of
           None \<Rightarrow> (Some (Wrap (New ''escrow'') ''error while initializing issuer''), w)
         | Some escrowPubkey \<Rightarrow>
     (let project = project\<lparr>EscrowPubkey := escrowPubkey\<rparr>;
          w = emit (TransferFundsToEscrowCall (TotalValue project) (Index project)
                      (EscrowPubkey project)) w
      in if \<not> TransferFundsToEscrow env (TotalValue project) (Index project)
                (EscrowPubkey project)
         then (Some (Wrap (New ''escrow'')
                  ''could not transfer funds to the escrow, quitting!''), w)
         else
     (let project = project\<lparr>LockPwd := ''''\<rparr>;
          project = project\<lparr>DebtAssetCode :=
                      AssetID env (DebtAssetPrefix env @ Metadata project)\<rparr>;
          project = project\<lparr>PaybackAssetCode :=
                      AssetID env (PaybackAssetPrefix env @ Metadata project)\<rparr>;
          w = emit (MunibondReceiveCall (RecipientIndex project) projIndex
                      (DebtAssetCode project) (PaybackAssetCode project)
                      (EstimatedAcquisition project) recpSeed
                      (TotalValue project + SeedMoneyRaised project)
                      (PaybackPeriod project)) w
      in if \<not> MunibondReceive env (RecipientIndex project) projIndex
                (DebtAssetCode project) (PaybackAssetCode project)
                (EstimatedAcquisition project) recpSeed
                (TotalValue project + SeedMoneyRaised project) (PaybackPeriod project)
         then (Some (Wrap (New ''munibond'')
                  ''error while receiving assets from issuer on recipient's end''), w)
         else
           (case updateProjectAfterAcceptance env project w of
              (Some err, w) \<Rightarrow>
                (Some (Wrap err ''failed to update project after acceptance of asset''), w)
            | (None, w) \<Rightarrow> (None, w))))))))"

text \<open>
  \<^verbatim>\<open>sendRecipientAssets\<close>: the first lookup in the world \<open>w0\<close> in which the task
  starts, the wait loop, then the release in the world \<open>w\<close> in which the loop ends.
\<close>

definition sendRecipientAssets ::
  "env \<Rightarrow> world \<Rightarrow> int \<Rightarrow> (int \<times> (int \<rightharpoonup> Project)) list \<Rightarrow> world \<Rightarrow> int
     \<Rightarrow> (error option \<times> world) option" where
  "sendRecipientAssets env w0 startTime polls w projIndex =
     (case RetrieveProject w0 projIndex of
        (project, Some err) \<Rightarrow> Some (Some (Wrap err ''Couldn't retrieve project''), w0)
      | (project, None) \<Rightarrow>
     (case waitForUnlock startTime (LockInterval env) projIndex polls of
        None \<Rightarrow> None
      | Some (Some err) \<Rightarrow> Some (Some err, w)
      | Some None \<Rightarrow> Some (releaseAssets env w projIndex)))"

subsection \<open>Payback and distribution\<close>

text \<open>The loop of \<^verbatim>\<open>DistributePayments\<close> over \<^verbatim>\<open>project.InvestorMap\<close>.\<close>

fun distributeLoop ::
  "env \<Rightarrow> Project \<Rightarrow> string \<Rightarrow> real \<Rightarrow> (string \<times> real) list \<Rightarrow> world \<Rightarrow> world" where
  "distributeLoop env project recipientSeed amountGivenBack [] w = w"
| "distributeLoop env project recipientSeed amountGivenBack ((pubkey, percentage) # rest) w =
     (let txAmount = percentage * amountGivenBack;
          w = emit (SendFundsFromEscrowCall (EscrowPubkey project) pubkey recipientSeed
                      txAmount) w;
          w = (if \<not> SendFundsFromEscrow env (EscrowPubkey project) pubkey recipientSeed
                     txAmount
               then emit (LogPaybackError pubkey) w else w)
      in distributeLoop env project recipientSeed amountGivenBack rest w)"

text \<open>
  \<^verbatim>\<open>DistributePayments\<close>. When the lookup fails the source builds a wrapped error and
  drops it: both components of the lookup lead to the same code.
\<close>

definition DistributePayments ::
  "env \<Rightarrow> world \<Rightarrow> string \<Rightarrow> string \<Rightarrow> int \<Rightarrow> real \<Rightarrow> error option \<times> world" where
  "DistributePayments env w recipientSeed escrowPubkey projIndex amount =
     (case RetrieveProject w projIndex of
        (project, err) \<Rightarrow>
     if EscrowLock project
     then (Some (New ''project escrow locked, can't send funds''),
           emit (LogEscrowLocked (Index project)) w)
     else
       (let fixedRate = (if InterestRate project \<noteq> 0 then InterestRate project else 0.05);
            amountGivenBack = fixedRate * amount
        in (None, distributeLoop env project recipientSeed amountGivenBack
                    (InvestorMap project) w)))"

text \<open>The field updates of \<^verbatim>\<open>Payback\<close>; \<open>now\<close> is \<^verbatim>\<open>utils.Unix()\<close>.\<close>

definition paybackUpdate :: "Project \<Rightarrow> real \<Rightarrow> real \<Rightarrow> int \<Rightarrow> Project" where
  "paybackUpdate project pct amount now =
     (let project = project\<lparr>BalLeft := BalLeft project - (1 - pct) * amount\<rparr>;
          project = project\<lparr>AmountOwed := AmountOwed project - amount\<rparr>;
          project = project\<lparr>OwnershipShift := OwnershipShift project + pct\<rparr>;
          project = project\<lparr>DateLastPaid := now\<rparr>;
          project = (if BalLeft project = 0 then project\<lparr>Stage := 9\<rparr> else project);
          project = (if OwnershipShift project = 1
                     then project\<lparr>BalLeft := 0, AmountOwed := 0\<rparr> else project)
      in project)"

text \<open>
  \<^verbatim>\<open>Payback\<close>. Modelled from the spec: \<^verbatim>\<open>MunibondPayback\<close> is not part of the
  sources at hand; it is the oracle that answers with \<open>pct\<close>, the fraction of the
  payment that converts to ownership, or fails.
\<close>

definition Payback ::
  "env \<Rightarrow> world \<Rightarrow> int \<Rightarrow> int \<Rightarrow> int \<Rightarrow> string \<Rightarrow> real \<Rightarrow> string \<Rightarrow> error option \<times> world" where
  "Payback env w now recpIndex projIndex assetName amount recipientSeed =
     (case RetrieveProject w projIndex of
        (project, Some err) \<Rightarrow> (Some (Wrap err ''Couldn't retrieve project''), w)
      | (project, None) \<Rightarrow>
     if InvestmentType project \<noteq> ''munibond''
     then (Some (New ''other investment models are not supported right now, quitting''), w)
     else
     (let w = emit (MunibondPaybackCall recpIndex amount recipientSeed projIndex assetName) w
      in case MunibondPayback env recpIndex amount recipientSeed projIndex assetName
                (InvestorIndices project) (TotalValue project) (EscrowPubkey project) of
           None \<Rightarrow> (Some (Wrap (New ''munibond'') ''Error while paying back the issuer''), w)
         | Some pct \<Rightarrow>
     (let project = paybackUpdate project pct amount now
      in case Save env project w of
           (Some err, w) \<Rightarrow> (Some (Wrap err ''coudln't save project''), w)
         | (None, w) \<Rightarrow>
     (case DistributePayments env w recipientSeed (EscrowPubkey project) projIndex amount of
        (Some err, w) \<Rightarrow> (Some (Wrap err ''error while distributing payments''), w)
      | (None, w) \<Rightarrow> (None, w)))))"

subsection \<open>First-loss cover and the payback monitor\<close>

text \<open>
  \<^verbatim>\<open>CoverFirstLoss\<close>. The two branches on \<^verbatim>\<open>consts.Mainnet\<close> differ in the asset
  sent; the event and the oracle carry the flag.
\<close>

definition CoverFirstLoss ::
  "env \<Rightarrow> world \<Rightarrow> int \<Rightarrow> int \<Rightarrow> real \<Rightarrow> error option \<times> world" where
  "CoverFirstLoss env w projIndex entityIndex amount =
     (case RetrieveProject w projIndex of
        (project, Some err) \<Rightarrow>
          (Some (Wrap err ''could not retrieve projects from database, quitting''), w)
      | (project, None) \<Rightarrow>
     (case RetrieveEntity w entityIndex of
        Inl err \<Rightarrow> (Some (Wrap err ''could not retrieve entity from database, quitting''), w)
      | Inr entity \<Rightarrow>
     if GuarantorIndex project \<noteq> UIndex (EntU entity)
     then (Some (New ''guarantor index does not match with entity's index in database''), w)
     else
     (let amount = (if FirstLossGuaranteeAmt entity < amount
                    then FirstLossGuaranteeAmt entity else amount)
      in case DecryptSeed env (EncryptedSeed (EntU entity)) (FirstLossGuarantee entity) of
           None \<Rightarrow> (Some (Wrap (New ''seed'') ''could not decrypt seed, quitting!''), w)
         | Some seed \<Rightarrow>
     (let w = emit (SendAssetCall (Mainnet env) (EscrowPubkey project) amount seed) w
      in if \<not> SendAsset env (Mainnet env) (EscrowPubkey project) amount seed
         then (Some (Wrap (New ''asset'') ''could not transfer asset to escrow, quitting''), w)
         else (None, w)))))"

text \<open>
  The escalation chain of \<^verbatim>\<open>monitorPaybacks\<close>: the \<^verbatim>\<open>if\<close> / \<^verbatim>\<open>else if\<close> chain on
  \<open>factor\<close>, which has no final \<^verbatim>\<open>else\<close>.
\<close>

datatype band = OnTrack | GentleReminder | SternReminder | Disconnection | NoBand

definition escalation :: "env \<Rightarrow> real \<Rightarrow> band" where
  "escalation env factor =
     (if factor \<le> 1 then OnTrack
      else if factor > NormalThreshold env \<and> factor < AlertThreshold env then GentleReminder
      else if factor \<ge> SternAlertThreshold env \<and> factor < DisconnectionThreshold env
      then SternReminder
      else if factor \<ge> DisconnectionThreshold env then Disconnection
      else NoBand)"

text \<open>
  Go's \<^verbatim>\<open>int64\<close> arithmetic (\<^verbatim>\<open>time.Duration\<close> and Unix times): the result of an
  operation, wrapped into the range from \<open>- 2^63\<close> to \<open>2^63 - 1\<close>.
\<close>

definition wrap64 :: "int \<Rightarrow> int" where
  "wrap64 n = (n + 2 ^ 63) mod 2 ^ 64 - 2 ^ 63"

text \<open>The \<open>factor\<close> of one cycle, \<open>now\<close> being \<^verbatim>\<open>utils.Unix()\<close>.\<close>

definition paybackFactor :: "env \<Rightarrow> Project \<Rightarrow> int \<Rightarrow> real" where
  "paybackFactor env project now =
     (let period = real_of_int (wrap64 (PaybackPeriod project * OneWeekInSecond env));
          period = (if period = 0 then 1 else period);
          timeElapsed = wrap64 (now - DateLastPaid project)
      in real_of_int timeElapsed / period)"

text \<open>The two loops of the monitor over \<^verbatim>\<open>project.InvestorIndices\<close>.\<close>

fun sternAlertInvestors :: "int \<Rightarrow> int list \<Rightarrow> world \<Rightarrow> world" where
  "sternAlertInvestors projIndex [] w = w"
| "sternAlertInvestors projIndex (i # rest) w =
     (case RetrieveInvestor w i of
        Inl err \<Rightarrow> sternAlertInvestors projIndex rest w
      | Inr investor \<Rightarrow>
          sternAlertInvestors projIndex rest
            (if UNotification (InvU investor)
             then emit (SendSternPaybackAlertEmailI projIndex (UEmail (InvU investor))) w
             else w))"

fun disconnectionInvestors :: "int \<Rightarrow> int list \<Rightarrow> world \<Rightarrow> world" where
  "disconnectionInvestors projIndex [] w = w"
| "disconnectionInvestors projIndex (i # rest) w =
     (case RetrieveInvestor w i of
        Inl err \<Rightarrow> disconnectionInvestors projIndex rest (emit SleepOneWeek w)
      | Inr investor \<Rightarrow>
          disconnectionInvestors projIndex rest
            (if UNotification (InvU investor)
             then emit (SendDisconnectionEmailI projIndex (UEmail (InvU investor))) w
             else w))"

text \<open>
  One iteration of the endless loop of \<^verbatim>\<open>monitorPaybacks\<close>. A failed lookup sleeps
  and goes on with the zero-valued record, whose \<^verbatim>\<open>U\<close> is the nil pointer: the first
  read of \<^verbatim>\<open>recipient.U\<close> or \<^verbatim>\<open>guarantor.U\<close> after a failed lookup is a nil pointer
  dereference, and the goroutine panics (\<open>Panics\<close>, with the effects up to there).
  Otherwise the cycle ends in its sleep (\<open>Sleeps\<close>). The accrual of \<open>AmountOwed\<close> is made
  on the local copy of the project, which the cycle does not save.
\<close>

datatype cycle = Sleeps world | Panics world

definition monitorCycle :: "env \<Rightarrow> world \<Rightarrow> int \<Rightarrow> int \<Rightarrow> int \<Rightarrow> cycle" where
  "monitorCycle env w now recpIndex projIndex =
     (case RetrieveProject w projIndex of
        (project, perr) \<Rightarrow>
     (let w = (if perr \<noteq> None then emit SleepOneWeek w else w);
          rr = RetrieveRecipient (recipients w) recpIndex;
          w = (if isl rr then emit SleepOneWeek w else w);
          gr = RetrieveEntity w (GuarantorIndex project);
          w = (if isl gr then emit SleepOneWeek w else w);
          factor = paybackFactor env project now;
          project = project\<lparr>AmountOwed := AmountOwed project + factor * MonthlyBill env\<rparr>
      in case escalation env factor of
           OnTrack \<Rightarrow>
             (case rr of
                Inl err \<Rightarrow> Panics w
              | Inr recipient \<Rightarrow> Sleeps (emit SleepOneWeek w))
         | GentleReminder \<Rightarrow>
             (case rr of
                Inl err \<Rightarrow> Panics w
              | Inr recipient \<Rightarrow>
                  Sleeps (emit SleepOneWeek (emit SleepOneWeek
                    (emit (SendNicePaybackAlertEmail projIndex (UEmail (RecpU recipient))) w))))
         | SternReminder \<Rightarrow>
             (case rr of
                Inl err \<Rightarrow> Panics w
              | Inr recipient \<Rightarrow>
                  (let w = emit (SendSternPaybackAlertEmail projIndex
                                   (UEmail (RecpU recipient))) w;
                       w = sternAlertInvestors projIndex (InvestorIndices project) w
                   in case gr of
                        Inl err \<Rightarrow> Panics w
                      | Inr guarantor \<Rightarrow>
                          Sleeps (emit SleepOneWeek (emit SleepOneWeek
                            (emit (SendSternPaybackAlertEmailG projIndex
                                     (UEmail (EntU guarantor))) w)))))
         | Disconnection \<Rightarrow>
             (let w = disconnectionInvestors projIndex (InvestorIndices project) w
              in case gr of
                   Inl err \<Rightarrow> Panics w
                 | Inr guarantor \<Rightarrow>
                     (let w = emit (SendDisconnectionEmailG projIndex
                                      (UEmail (EntU guarantor))) w
                      in case CoverFirstLoss env w (Index project) (UIndex (EntU guarantor))
                                (AmountOwed project) of
                           (Some err, w) \<Rightarrow> Sleeps (emit SleepOneWeek w)
                         | (None, w) \<Rightarrow> Sleeps (emit SleepOneWeek w)))
         | NoBand \<Rightarrow> Sleeps (emit SleepOneWeek w)))"

subsection \<open>The share recorded for a public key\<close>


subsection \<open>Reading the log of effects\<close>

fun transferOf :: "event \<Rightarrow> real option" where
  "transferOf (TransferFundsToEscrowCall amount projIndex escrowPubkey) = Some amount"
| "transferOf _ = None"

fun payoutOf :: "event \<Rightarrow> (string \<times> string \<times> real) option" where
  "payoutOf (SendFundsFromEscrowCall escrowPubkey pubkey recipientSeed txAmount) =
     Some (escrowPubkey, pubkey, txAmount)"
| "payoutOf _ = None"

fun paybackErrorOf :: "event \<Rightarrow> string option" where
  "paybackErrorOf (LogPaybackError pubkey) = Some pubkey"
| "paybackErrorOf _ = None"

fun assetSentOf :: "event \<Rightarrow> real option" where
  "assetSentOf (SendAssetCall mainnet escrowPubkey amount seed) = Some amount"
| "assetSentOf _ = None"

text \<open>The amounts moved into escrow, in order.\<close>

definition escrowTransfers :: "event list \<Rightarrow> real list" where
  "escrowTransfers es = List.map_filter transferOf es"

text \<open>The transfers attempted out of escrow: source, destination, amount.\<close>

definition escrowPayouts :: "event list \<Rightarrow> (string \<times> string \<times> real) list" where
  "escrowPayouts es = List.map_filter payoutOf es"

text \<open>The public keys whose payout was logged as failed.\<close>

definition paybackErrors :: "event list \<Rightarrow> string list" where
  "paybackErrors es = List.map_filter paybackErrorOf es"

text \<open>The amounts a guarantor was asked to send to an escrow.\<close>

definition assetsSent :: "event list \<Rightarrow> real list" where
  "assetsSent es = List.map_filter assetSentOf es"

text \<open>Every record of the project bucket is stored under its own index.\<close>

definition wellKeyed :: "world \<Rightarrow> bool" where
  "wellKeyed w = (\<forall>key project. projects w key = Some project \<longrightarrow> Index project = key)"

text \<open>
  A sequence of calls of \<^verbatim>\<open>Payback\<close>, each given as (now, recpIndex, projIndex,
  assetName, amount, recipientSeed), whatever each call returns.
\<close>

fun PaybackSeq ::
  "env \<Rightarrow> world \<Rightarrow> (int \<times> int \<times> int \<times> string \<times> real \<times> string) list \<Rightarrow> world" where
  "PaybackSeq env w [] = w"
| "PaybackSeq env w ((now, recpIndex, projIndex, assetName, amount, recipientSeed) # calls) =
     PaybackSeq env
       (snd (Payback env w now recpIndex projIndex assetName amount recipientSeed)) calls"

subsection \<open>Example data\<close>

definition demoUser :: User where
  "demoUser = \<lparr>UIndex = 1, UName = ''demo'', UEmail = ''demo@example.org'',
     UNotification = True, UKyc = True, UBanned = False, PublicKey = ''GDEMO1'',
     EncryptedSeed = ''ENC1''\<rparr>"

definition demoInvestor :: Investor where
  "demoInvestor = \<lparr>InvU = demoUser, VotingBalance = 0\<rparr>"

definition demoInvestor2 :: Investor where
  "demoInvestor2 =
     \<lparr>InvU = demoUser\<lparr>UIndex := 2, PublicKey := ''GDEMO2''\<rparr>, VotingBalance = 0\<rparr>"

definition demoRecipient :: Recipient where
  "demoRecipient = \<lparr>RecpU = demoUser\<lparr>PublicKey := ''GRECP''\<rparr>\<rparr>"

definition demoEntity :: Entity where
  "demoEntity = \<lparr>EntU = demoUser\<lparr>PublicKey := ''GGUAR''\<rparr>, FirstLossGuaranteeAmt = 300,
     FirstLossGuarantee = ''pwd''\<rparr>"

text \<open>A project of value 1000 at stage 4, of which 600 are raised.\<close>

definition demoProject :: Project where
  "demoProject = zeroProject\<lparr>Index := 1, Stage := 4, TotalValue := 1000,
     MoneyRaised := 600, SeedMoneyRaised := 50, SeedInvestmentFactor := 1,
     InvestorIndices := [1], InvestorMap := [(''GDEMO1'', 3 / 5), (''GDEMO2'', 2 / 5)],
     InvestmentType := ''munibond'', Chain := ''stellar'',
     InvestorAssetCode := ''INVASSET'', Metadata := ''meta'', GuarantorIndex := 1,
     RecipientIndex := 1, PaybackPeriod := 4, BalLeft := 1050\<rparr>"

definition demoWorld :: world where
  "demoWorld = \<lparr>projects = [1 \<mapsto> demoProject],
     investors = [1 \<mapsto> demoInvestor, 2 \<mapsto> demoInvestor2],
     recipients = [1 \<mapsto> demoRecipient], entities = [1 \<mapsto> demoEntity], events = []\<rparr>"

text \<open>
  Collaborators that succeed, except that the seed asset is held by nobody (its balance
  query fails) and that the payout to \<open>GDEMO1\<close> fails. The thresholds 1, 2, 4, 6 follow
  the comments of \<^verbatim>\<open>monitorPaybacks\<close> (``one-two consecutive period'', ``four
  consecutive cycles'').
\<close>

definition demoEnv :: env where
  "demoEnv = \<lparr>SaveOk = (\<lambda>p. True), CanInvest = (\<lambda>i a. True),
     ReturnPubkey = (\<lambda>s. Some ''GDEMO1''), AccountExists = (\<lambda>k. True),
     AssetID = (\<lambda>s. s), InvestorAssetPrefix = ''I'', DebtAssetPrefix = ''D'',
     PaybackAssetPrefix = ''P'', InitIssuer = (\<lambda>i. True), FundIssuer = (\<lambda>i. True),
     MunibondInvest = (\<lambda>i s a p c t f b. True),
     GetAssetBalance = (\<lambda>k c. if c = ''INVASSET''
                                then (if k = ''GDEMO1'' then Some 600 else Some 400)
                                else None),
     RecipientsAfterBackoff = [1 \<mapsto> demoRecipient],
     DecryptSeed = (\<lambda>e p. Some ''SEED''), InitEscrow = (\<lambda>i k s. Some ''GESCROW''),
     TransferFundsToEscrow = (\<lambda>a i k. True),
     MunibondReceive = (\<lambda>r p d b e s a q. True),
     MunibondPayback = (\<lambda>r a s p n is t e. Some (1 / 5)),
     SendFundsFromEscrow = (\<lambda>e k s a. k \<noteq> ''GDEMO1''),
     SendAsset = (\<lambda>m e a s. True), Mainnet = False, LockInterval = 259200,
     MonthlyBill = 100, OneWeekInSecond = 604800, NormalThreshold = 1,
     AlertThreshold = 2, SternAlertThreshold = 4, DisconnectionThreshold = 6\<rparr>"

text \<open>The same collaborators, with a chain that reports \<open>pct = 3/4\<close> for every payback.\<close>

definition demoEnvLargePct :: env where
  "demoEnvLargePct = demoEnv\<lparr>MunibondPayback := (\<lambda>r a s p n is t e. Some (3 / 4))\<rparr>"

text \<open>The project fully funded and unlocked, the unlock secret still in place.\<close>

definition fundedWorld :: world where
  "fundedWorld = demoWorld\<lparr>projects :=
     [1 \<mapsto> demoProject\<lparr>MoneyRaised := 1000, LockPwd := ''pwd''\<rparr>]\<rparr>"

text \<open>Thresholds without a gap between the gentle and the stern band.\<close>

definition demoEnvContiguous :: env where
  "demoEnvContiguous = demoEnv\<lparr>SternAlertThreshold := 2, DisconnectionThreshold := 3\<rparr>"




section \<open>Properties\<close>

subsection \<open>Basic facts\<close>

lemma events_emit: "events (emit e w) = events w @ [e]"
  by (simp add: emit_def)

lemma projects_emit: "projects (emit e w) = projects w"
  by (simp add: emit_def)

lemma map_filter_append:
  "List.map_filter f (xs @ ys) = List.map_filter f xs @ List.map_filter f ys"
  by (simp add: List.map_filter_def)

text \<open>The definitions of the example data, for evaluation.\<close>

lemmas demo_defs = demoWorld_def demoEnv_def demoProject_def zeroProject_def demoEntity_def
  demoUser_def demoInvestor_def demoInvestor2_def demoRecipient_def

subsection \<open>Investments beyond the remaining gap\<close>

lemma preInvestmentCheck_gap:
  assumes "projects w projIndex = Some p" and "invAmount > TotalValue p - MoneyRaised p"
  shows "\<exists>e. preInvestmentCheck env w projIndex invIndex invAmount seed = (Inl e, w)"
  using assms
  by (simp add: preInvestmentCheck_def RetrieveProject_def split: sum.split option.split)

text \<open>
  C1. An investment of more than \<open>TotalValue - MoneyRaised\<close> is rejected by \<open>Invest\<close>
  and by \<open>SeedInvest\<close> with an error, and the world the call returns is the world it
  was given: no record is written and no effect happens.
\<close>

theorem C1_overfunding_rejected:
  assumes "projects w projIndex = Some p" and "invAmount > TotalValue p - MoneyRaised p"
  shows "(\<exists>e. Invest env w projIndex invIndex invAmount seed = (Some e, w)) \<and>
         (\<exists>e. SeedInvest env w projIndex invIndex invAmount seed = (Some e, w))"
proof -
  obtain e where e: "preInvestmentCheck env w projIndex invIndex invAmount seed = (Inl e, w)"
    using preInvestmentCheck_gap [OF assms] by blast
  show ?thesis by (simp add: Invest_def SeedInvest_def e)
qed

text \<open>The scenario of the specification: 600 of 1000 raised, an investment of 500.\<close>

theorem C1_overfunding_rejected_witness:
  "projects demoWorld 1 = Some demoProject \<and>
   (500::real) > TotalValue demoProject - MoneyRaised demoProject \<and>
   fst (Invest demoEnv demoWorld 1 1 500 ''SEED'') \<noteq> None \<and>
   snd (Invest demoEnv demoWorld 1 1 500 ''SEED'') = demoWorld \<and>
   fst (SeedInvest demoEnv demoWorld 1 1 500 ''SEED'') \<noteq> None \<and>
   snd (SeedInvest demoEnv demoWorld 1 1 500 ''SEED'') = demoWorld"
proof -
  have a: "projects demoWorld 1 = Some demoProject" by (simp add: demoWorld_def)
  have b: "(500::real) > TotalValue demoProject - MoneyRaised demoProject"
    by (simp add: demoProject_def)
  show ?thesis using a b C1_overfunding_rejected [OF a b, of demoEnv 1 "''SEED''"] by auto
qed

subsection \<open>Distribution of a payment\<close>

text \<open>
  C10. When the lookup of the project fails, \<open>DistributePayments\<close> drops the error,
  goes on with the zero-valued project and returns success without any transfer: the
  world is unchanged.
\<close>

theorem C10_lookup_failure_discarded:
  assumes "projects w projIndex = None"
  shows "DistributePayments env w recipientSeed escrowPubkey projIndex amount = (None, w)"
  using assms by (simp add: DistributePayments_def RetrieveProject_def zeroProject_def)

theorem C10_lookup_failure_discarded_witness:
  "projects demoWorld 7 = None \<and>
   fst (RetrieveProject demoWorld 7) = zeroProject \<and>
   snd (RetrieveProject demoWorld 7) \<noteq> None \<and>
   DistributePayments demoEnv demoWorld ''SEED'' ''GESCROW'' 7 100 = (None, demoWorld)"
proof -
  have a: "projects demoWorld 7 = None" by (simp add: demoWorld_def)
  show ?thesis using a C10_lookup_failure_discarded [OF a]
    by (simp add: RetrieveProject_def)
qed

lemma escrowPayouts_emit:
  "escrowPayouts (events (emit e w)) = escrowPayouts (events w) @ (case payoutOf e of None \<Rightarrow> [] | Some x \<Rightarrow> [x])"
  by (simp add: escrowPayouts_def events_emit map_filter_append List.map_filter_def split: option.split)

lemma paybackErrors_emit:
  "paybackErrors (events (emit e w)) = paybackErrors (events w) @ (case paybackErrorOf e of None \<Rightarrow> [] | Some x \<Rightarrow> [x])"
  by (simp add: paybackErrors_def events_emit map_filter_append List.map_filter_def split: option.split)

lemma distributeLoop_payouts:
  "escrowPayouts (events (distributeLoop env project recipientSeed amountGivenBack m w)) =
     escrowPayouts (events w) @
     map (\<lambda>(pubkey, percentage). (EscrowPubkey project, pubkey, percentage * amountGivenBack)) m"
  by (induction m arbitrary: w) (auto simp: Let_def escrowPayouts_emit)

lemma distributeLoop_errors:
  "paybackErrors (events (distributeLoop env project recipientSeed amountGivenBack m w)) =
     paybackErrors (events w) @
     map fst (filter (\<lambda>(pubkey, percentage). \<not> SendFundsFromEscrow env (EscrowPubkey project)
                 pubkey recipientSeed (percentage * amountGivenBack)) m)"
  by (induction m arbitrary: w) (auto simp: Let_def paybackErrors_emit)

lemma distributeLoop_projects:
  "projects (distributeLoop env project recipientSeed amountGivenBack m w) = projects w"
  by (induction m arbitrary: w) (auto simp: Let_def projects_emit)

text \<open>
  C6. With \<open>EscrowLock\<close> unset, \<open>DistributePayments\<close> returns success and attempts,
  for every entry (public key, share) of \<open>InvestorMap\<close> and in its order, one transfer
  of share \<times> rate \<times> amount from the project's escrow to that key, where rate is
  \<open>InterestRate\<close> if nonzero and 0.05 otherwise. The list of attempts does not depend on
  which transfers fail; the failed ones are exactly the ones logged.
\<close>

theorem C6_distribution_fan_out:
  assumes "projects w projIndex = Some p" and "\<not> EscrowLock p"
  shows "fst (DistributePayments env w recipientSeed escrowPubkey projIndex amount) = None \<and>
         escrowPayouts (events (snd (DistributePayments env w recipientSeed escrowPubkey
                                       projIndex amount))) =
           escrowPayouts (events w) @
           map (\<lambda>(pubkey, share).
                  (EscrowPubkey p, pubkey,
                   share * (if InterestRate p \<noteq> 0 then InterestRate p else 5 / 100) * amount))
               (InvestorMap p) \<and>
         paybackErrors (events (snd (DistributePayments env w recipientSeed escrowPubkey
                                       projIndex amount))) =
           paybackErrors (events w) @
           map fst (filter (\<lambda>(pubkey, share). \<not> SendFundsFromEscrow env (EscrowPubkey p) pubkey
                       recipientSeed
                       (share * ((if InterestRate p \<noteq> 0 then InterestRate p else 5 / 100) * amount)))
                     (InvestorMap p))"
  using assms
  by (simp add: DistributePayments_def RetrieveProject_def Let_def distributeLoop_payouts
      distributeLoop_errors mult.assoc)

text \<open>Two investors, rate 0.05, amount 100; the first transfer fails, the second is made.\<close>

theorem C6_distribution_fan_out_witness:
  "projects demoWorld 1 = Some demoProject \<and> \<not> EscrowLock demoProject \<and>
   \<not> SendFundsFromEscrow demoEnv '''' ''GDEMO1'' ''SEED'' 3 \<and>
   fst (DistributePayments demoEnv demoWorld ''SEED'' ''GESCROW'' 1 100) = None \<and>
   escrowPayouts (events (snd (DistributePayments demoEnv demoWorld ''SEED'' ''GESCROW'' 1 100)))
     = [('''', ''GDEMO1'', 3), ('''', ''GDEMO2'', 2)] \<and>
   paybackErrors (events (snd (DistributePayments demoEnv demoWorld ''SEED'' ''GESCROW'' 1 100)))
     = [''GDEMO1'']"
proof -
  have a: "projects demoWorld 1 = Some demoProject" by (simp add: demoWorld_def)
  have b: "\<not> EscrowLock demoProject" by (simp add: demoProject_def zeroProject_def)
  have c: "events demoWorld = []" by (simp add: demoWorld_def)
  show ?thesis
    using a b C6_distribution_fan_out [OF a b, of demoEnv "''SEED''" "''GESCROW''" 100]
    by (simp add: c demoProject_def zeroProject_def demoEnv_def escrowPayouts_def
        paybackErrors_def List.map_filter_def)
qed

lemma assetsSent_emit:
  "assetsSent (events (emit e w)) = assetsSent (events w) @ (case assetSentOf e of None \<Rightarrow> [] | Some x \<Rightarrow> [x])"
  by (simp add: assetsSent_def events_emit map_filter_append List.map_filter_def split: option.split)

subsection \<open>First-loss cover\<close>

text \<open>
  C7. \<open>CoverFirstLoss\<close> asks for at most one transfer, and its amount is the minimum of
  the requested amount and the guarantor's \<open>FirstLossGuaranteeAmt\<close>: a request above the
  ceiling is clamped to it.
\<close>

theorem C7_first_loss_clamped:
  "assetsSent (events (snd (CoverFirstLoss env w projIndex entityIndex amount))) =
     assetsSent (events w) \<or>
   (\<exists>entity. entities w entityIndex = Some entity \<and>
      assetsSent (events (snd (CoverFirstLoss env w projIndex entityIndex amount))) =
        assetsSent (events w) @ [min amount (FirstLossGuaranteeAmt entity)])"
proof (cases "entities w entityIndex")
  case None
  then show ?thesis
    by (simp add: CoverFirstLoss_def RetrieveProject_def RetrieveEntity_def
        split: option.split)
next
  case (Some entity)
  then have "assetsSent (events (snd (CoverFirstLoss env w projIndex entityIndex amount))) =
               assetsSent (events w) \<or>
             assetsSent (events (snd (CoverFirstLoss env w projIndex entityIndex amount))) =
               assetsSent (events w) @ [min amount (FirstLossGuaranteeAmt entity)]"
    by (simp add: CoverFirstLoss_def RetrieveProject_def RetrieveEntity_def Let_def
        assetsSent_emit min_def split: option.split)
  with Some show ?thesis by blast
qed

text \<open>A ceiling of 300: a request of 500 sends 300, a request of 200 sends 200.\<close>

theorem C7_first_loss_clamped_witness:
  "assetsSent (events (snd (CoverFirstLoss demoEnv demoWorld 1 1 500))) = [300] \<and>
   assetsSent (events (snd (CoverFirstLoss demoEnv demoWorld 1 1 200))) = [200] \<and>
   FirstLossGuaranteeAmt demoEntity = 300"
proof -
  have e: "entities demoWorld 1 = Some demoEntity" "assetsSent (events demoWorld) = []"
    by (simp_all add: demoWorld_def assetsSent_def List.map_filter_def)
  have n1: "assetsSent (events (snd (CoverFirstLoss demoEnv demoWorld 1 1 500))) \<noteq> []"
    by (simp add: CoverFirstLoss_def RetrieveProject_def RetrieveEntity_def Let_def
      assetsSent_emit demoWorld_def demoEnv_def demoProject_def zeroProject_def demoEntity_def demoUser_def)
  have n2: "assetsSent (events (snd (CoverFirstLoss demoEnv demoWorld 1 1 200))) \<noteq> []"
    by (simp add: CoverFirstLoss_def RetrieveProject_def RetrieveEntity_def Let_def
      assetsSent_emit demoWorld_def demoEnv_def demoProject_def zeroProject_def demoEntity_def demoUser_def)
  have f: "FirstLossGuaranteeAmt demoEntity = 300" by (simp add: demoEntity_def)
  show ?thesis
    using C7_first_loss_clamped [of demoEnv demoWorld 1 1 500]
      C7_first_loss_clamped [of demoEnv demoWorld 1 1 200] n1 n2
    by (simp add: e f)
qed

subsection \<open>Payback\<close>

lemma DistributePayments_projects:
  "projects (snd (DistributePayments env w recipientSeed escrowPubkey projIndex amount)) = projects w"
  by (simp add: DistributePayments_def Let_def distributeLoop_projects projects_emit
      split: prod.split)






subsection \<open>Sequences of paybacks\<close>

lemma paybackUpdate_fields:
  "Index (paybackUpdate p pct amount now) = Index p"
  "OwnershipShift (paybackUpdate p pct amount now) = OwnershipShift p + pct"
  by (simp_all add: paybackUpdate_def Let_def)

lemma paybackUpdate_BalLeft:
  assumes "pct \<le> 1" and "0 \<le> amount"
  shows "BalLeft (paybackUpdate p pct amount now) \<le> max (BalLeft p) 0"
proof -
  have "0 \<le> (1 - pct) * amount" using assms by simp
  then show ?thesis by (simp add: paybackUpdate_def Let_def max_def)
qed

lemma paybackUpdate_AmountOwed:
  assumes "0 \<le> amount"
  shows "AmountOwed (paybackUpdate p pct amount now) \<le> max (AmountOwed p) 0"
  using assms by (simp add: paybackUpdate_def Let_def max_def)

lemma Payback_projects:
  "projects (snd (Payback env w now recpIndex projIndex assetName amount recipientSeed)) = projects w \<or>
   (\<exists>p pct. projects w projIndex = Some p \<and>
      MunibondPayback env recpIndex amount recipientSeed projIndex assetName
        (InvestorIndices p) (TotalValue p) (EscrowPubkey p) = Some pct \<and>
      projects (snd (Payback env w now recpIndex projIndex assetName amount recipientSeed)) =
        (projects w)(Index p \<mapsto> paybackUpdate p pct amount now))"
proof (cases "projects w projIndex")
  case None
  then show ?thesis by (simp add: Payback_def RetrieveProject_def)
next
  case (Some p)
  show ?thesis
  proof (cases "InvestmentType p = ''munibond''")
    case False
    with Some show ?thesis by (simp add: Payback_def RetrieveProject_def)
  next
    case munibond: True
  show ?thesis
  proof (cases "MunibondPayback env recpIndex amount recipientSeed projIndex assetName
        (InvestorIndices p) (TotalValue p) (EscrowPubkey p)")
    case None
    with Some munibond show ?thesis
      by (simp add: Payback_def RetrieveProject_def Let_def projects_emit)
  next
    case pct: (Some pct)
    let ?q = "paybackUpdate p pct amount now"
    show ?thesis
    proof (cases "SaveOk env ?q")
      case False
      with Some pct munibond show ?thesis
        by (simp add: Payback_def RetrieveProject_def Let_def Save_def projects_emit)
    next
      case True
      let ?w2 = "(emit (MunibondPaybackCall recpIndex amount recipientSeed projIndex assetName) w)
                   \<lparr>projects := (projects w)(Index p \<mapsto> ?q)\<rparr>"
      have "snd (Payback env w now recpIndex projIndex assetName amount recipientSeed) =
              snd (DistributePayments env ?w2 recipientSeed (EscrowPubkey ?q) projIndex amount)"
        using Some pct True munibond
        by (simp add: Payback_def RetrieveProject_def Let_def Save_def projects_emit
            paybackUpdate_fields split: prod.split option.split)
      then have "projects (snd (Payback env w now recpIndex projIndex assetName amount recipientSeed)) =
              (projects w)(Index p \<mapsto> ?q)"
        by (simp add: DistributePayments_projects)
      with Some pct show ?thesis by blast
    qed
  qed
  qed
qed

lemma wellKeyed_projects: "projects w' = projects w \<Longrightarrow> wellKeyed w' = wellKeyed w"
  by (simp add: wellKeyed_def)

lemma Payback_step:
  assumes wk: "wellKeyed w" and p: "projects w i = Some p"
    and pct: "\<forall>r a s j n is t e pct. MunibondPayback env r a s j n is t e = Some pct \<longrightarrow>
                0 \<le> pct \<and> pct \<le> 1"
    and amt: "0 \<le> amount"
  shows "wellKeyed (snd (Payback env w now recpIndex projIndex assetName amount recipientSeed)) \<and>
         (\<exists>q. projects (snd (Payback env w now recpIndex projIndex assetName amount
                               recipientSeed)) i = Some q \<and>
              OwnershipShift p \<le> OwnershipShift q \<and>
              max (BalLeft q) 0 \<le> max (BalLeft p) 0 \<and>
              max (AmountOwed q) 0 \<le> max (AmountOwed p) 0)"
proof -
  let ?w' = "snd (Payback env w now recpIndex projIndex assetName amount recipientSeed)"
  from Payback_projects [of env w now recpIndex projIndex assetName amount recipientSeed]
  consider (same) "projects ?w' = projects w"
    | (upd) p' c where "projects w projIndex = Some p'"
        "MunibondPayback env recpIndex amount recipientSeed projIndex assetName
           (InvestorIndices p') (TotalValue p') (EscrowPubkey p') = Some c"
        "projects ?w' = (projects w)(Index p' \<mapsto> paybackUpdate p' c amount now)"
    by blast
  then show ?thesis
  proof cases
    case same
    then have "wellKeyed ?w'" "projects ?w' i = Some p"
      using wk p wellKeyed_projects [of ?w' w] by simp_all
    then show ?thesis by auto
  next
    case upd
    from wk upd(1) have idx: "Index p' = projIndex" by (simp add: wellKeyed_def)
    from pct upd(2) have c: "0 \<le> c" "c \<le> 1" by blast+
    have wk': "wellKeyed ?w'"
      unfolding wellKeyed_def
    proof (intro allI impI)
      fix key project
      assume "projects ?w' key = Some project"
      then have "((projects w)(Index p' \<mapsto> paybackUpdate p' c amount now)) key = Some project"
        by (simp only: upd(3))
      then show "Index project = key"
        using wk by (cases "key = Index p'") (auto simp: wellKeyed_def paybackUpdate_fields)
    qed
    have at: "projects ?w' i = ((projects w)(Index p' \<mapsto> paybackUpdate p' c amount now)) i"
      by (simp only: upd(3))
    show ?thesis
    proof (cases "projIndex = i")
      case True
      with p upd(1) have pp: "p' = p" by simp
      have "max (BalLeft (paybackUpdate p c amount now)) 0 \<le> max (BalLeft p) 0"
        using paybackUpdate_BalLeft [OF c(2) amt, of p now] by simp
      moreover have "max (AmountOwed (paybackUpdate p c amount now)) 0 \<le> max (AmountOwed p) 0"
        using paybackUpdate_AmountOwed [OF amt, of p c now] by simp
      moreover have "projects ?w' i = Some (paybackUpdate p c amount now)"
        using at idx True pp by simp
      moreover have "OwnershipShift p \<le> OwnershipShift (paybackUpdate p c amount now)"
        using c(1) by (simp add: paybackUpdate_fields)
      ultimately show ?thesis using wk' by blast
    next
      case False
      then have "projects ?w' i = Some p"
        using at idx p by simp
      then show ?thesis using wk' by auto
    qed
  qed
qed

text \<open>
  C4, as the code has it. Over every sequence of \<open>Payback\<close> calls in which the chain
  reports fractions \<open>pct\<close> between 0 and 1 and the amounts paid are not negative,
  \<open>OwnershipShift\<close> never decreases, and \<open>BalLeft\<close> and \<open>AmountOwed\<close> never rise above
  the larger of their earlier value and 0 (the zeroing at \<open>OwnershipShift = 1\<close> raises a
  negative value to 0). The statement holds from every intermediate state of a sequence,
  the bucket staying keyed by index. Nothing caps \<open>OwnershipShift\<close> at 1.
\<close>

theorem C4_payback_monotone:
  assumes "wellKeyed w" and "projects w i = Some p"
    and "\<forall>r a s j n is t e pct. MunibondPayback env r a s j n is t e = Some pct \<longrightarrow>
           0 \<le> pct \<and> pct \<le> 1"
    and "\<forall>(now, recpIndex, projIndex, assetName, amount, recipientSeed) \<in> set calls.
           0 \<le> amount"
  shows "wellKeyed (PaybackSeq env w calls) \<and>
         (\<exists>q. projects (PaybackSeq env w calls) i = Some q \<and>
              OwnershipShift p \<le> OwnershipShift q \<and>
              BalLeft q \<le> max (BalLeft p) 0 \<and>
              AmountOwed q \<le> max (AmountOwed p) 0)"
proof -
  have "wellKeyed (PaybackSeq env w calls) \<and>
         (\<exists>q. projects (PaybackSeq env w calls) i = Some q \<and>
              OwnershipShift p \<le> OwnershipShift q \<and>
              max (BalLeft q) 0 \<le> max (BalLeft p) 0 \<and>
              max (AmountOwed q) 0 \<le> max (AmountOwed p) 0)"
    using assms(1,2,4)
  proof (induction calls arbitrary: w p)
    case Nil
    then show ?case by simp
  next
    case (Cons c calls)
    obtain now recpIndex projIndex assetName amount recipientSeed
      where c: "c = (now, recpIndex, projIndex, assetName, amount, recipientSeed)"
      by (cases c) auto
    let ?w' = "snd (Payback env w now recpIndex projIndex assetName amount recipientSeed)"
    from Cons.prems(3) c have amt: "0 \<le> amount" by simp
    from Payback_step [OF Cons.prems(1,2) assms(3) amt]
    obtain q where wk': "wellKeyed ?w'" and q: "projects ?w' i = Some q"
      and m: "OwnershipShift p \<le> OwnershipShift q" "max (BalLeft q) 0 \<le> max (BalLeft p) 0"
        "max (AmountOwed q) 0 \<le> max (AmountOwed p) 0"
      by blast
    from Cons.prems(3) have rest: "\<forall>(now, recpIndex, projIndex, assetName, amount, recipientSeed) \<in> set calls.
           0 \<le> amount" by simp
    have seq: "PaybackSeq env w (c # calls) = PaybackSeq env ?w' calls"
      by (simp add: c)
    from Cons.IH [OF wk' q rest] obtain q' where q':
      "wellKeyed (PaybackSeq env ?w' calls)" "projects (PaybackSeq env ?w' calls) i = Some q'"
      "OwnershipShift q \<le> OwnershipShift q'" "max (BalLeft q') 0 \<le> max (BalLeft q) 0"
      "max (AmountOwed q') 0 \<le> max (AmountOwed q) 0"
      by blast
    have "OwnershipShift p \<le> OwnershipShift q'" using m(1) q'(3) by linarith
    moreover have "max (BalLeft q') 0 \<le> max (BalLeft p) 0" using m(2) q'(4) by linarith
    moreover have "max (AmountOwed q') 0 \<le> max (AmountOwed p) 0"
      using m(3) q'(5) by linarith
    ultimately show ?case unfolding seq using q'(1,2) by blast
  qed
  then show ?thesis by auto
qed

text \<open>
  C4 as stated fails: two paybacks for which the chain reports \<open>pct = 3/4\<close> each take
  \<open>OwnershipShift\<close> from 0 to 3/2.
\<close>

theorem C4_ownership_exceeds_one_counterexample:
  "map_option OwnershipShift (projects demoWorld 1) = Some 0 \<and>
   map_option OwnershipShift
     (projects (PaybackSeq demoEnvLargePct demoWorld
        [(1000, 1, 1, ''PAYBACK'', 100, ''SEED''), (2000, 1, 1, ''PAYBACK'', 100, ''SEED'')]) 1)
     = Some (3 / 2) \<and> (1::real) < 3 / 2"
  by (simp add: Payback_def RetrieveProject_def Save_def DistributePayments_def Let_def
        emit_def paybackUpdate_def demoEnvLargePct_def demo_defs)

text \<open>Two paybacks of 100 with \<open>pct = 1/5\<close> each.\<close>

theorem C4_payback_monotone_witness:
  "wellKeyed demoWorld \<and> projects demoWorld 1 = Some demoProject \<and>
   MunibondPayback demoEnv 1 100 ''SEED'' 1 ''PAYBACK'' [1] 1000 '''' = Some (1 / 5) \<and>
   wellKeyed (PaybackSeq demoEnv demoWorld
      [(1000, 1, 1, ''PAYBACK'', 100, ''SEED''), (2000, 1, 1, ''PAYBACK'', 100, ''SEED'')]) \<and>
   (\<exists>q. projects (PaybackSeq demoEnv demoWorld
            [(1000, 1, 1, ''PAYBACK'', 100, ''SEED''), (2000, 1, 1, ''PAYBACK'', 100, ''SEED'')]) 1
          = Some q \<and>
        OwnershipShift demoProject \<le> OwnershipShift q \<and>
        BalLeft q \<le> max (BalLeft demoProject) 0 \<and>
        AmountOwed q \<le> max (AmountOwed demoProject) 0)"
proof -
  have a: "wellKeyed demoWorld"
    by (simp add: wellKeyed_def demoWorld_def demoProject_def)
  have b: "projects demoWorld 1 = Some demoProject" by (simp add: demoWorld_def)
  have c: "\<forall>r a s j n is t e pct. MunibondPayback demoEnv r a s j n is t e = Some pct \<longrightarrow>
             0 \<le> pct \<and> pct \<le> 1"
    by (auto simp: demoEnv_def)
  have d: "\<forall>(now, recpIndex, projIndex, assetName, amount, recipientSeed)
              \<in> set [(1000, 1, 1, ''PAYBACK'', 100::real, ''SEED''),
                      (2000::int, 1::int, 1::int, ''PAYBACK'', 100, ''SEED'')]. 0 \<le> amount"
    by simp
  have e: "MunibondPayback demoEnv 1 100 ''SEED'' 1 ''PAYBACK'' [1] 1000 '''' = Some (1 / 5)"
    by (simp add: demoEnv_def)
  show ?thesis using a b e C4_payback_monotone [OF a b c d] by simp
qed

subsection \<open>Escrow release\<close>

lemma escrowTransfers_emit:
  "escrowTransfers (events (emit e w)) =
     escrowTransfers (events w) @ (case transferOf e of None \<Rightarrow> [] | Some x \<Rightarrow> [x])"
  by (simp add: escrowTransfers_def events_emit map_filter_append List.map_filter_def
      split: option.split)

lemma escrowTransfers_simps:
  "escrowTransfers [] = []"
  "escrowTransfers (e # es) =
     (case transferOf e of None \<Rightarrow> [] | Some x \<Rightarrow> [x]) @ escrowTransfers es"
  "escrowTransfers (xs @ ys) = escrowTransfers xs @ escrowTransfers ys"
  by (simp_all add: escrowTransfers_def map_filter_append List.map_filter_def
      split: option.split)

lemma releaseAssets_transfers:
  assumes "projects w projIndex = Some p"
  shows "escrowTransfers (events (snd (releaseAssets env w projIndex))) = escrowTransfers (events w) \<or>
         escrowTransfers (events (snd (releaseAssets env w projIndex))) =
           escrowTransfers (events w) @ [TotalValue p]"
  using assms
  by (simp add: releaseAssets_def RetrieveProject_def updateProjectAfterAcceptance_def
      Save_def Let_def escrowTransfers_emit split: sum.split option.split)

lemma releaseAssets_success:
  assumes "projects w projIndex = Some p"
    and "releaseAssets env w projIndex = (None, w')"
  shows "escrowTransfers (events w') = escrowTransfers (events w) @ [TotalValue p] \<and>
         (\<exists>q. projects w' (Index p) = Some q \<and>
              BalLeft q = TotalValue p + SeedMoneyRaised p \<and> Stage q = 5 \<and>
              LockPwd q = '''') \<and>
         last (events w') = GoMonitorPaybacks (RecipientIndex p) (Index p)"
  using assms
  by (auto simp: releaseAssets_def RetrieveProject_def updateProjectAfterAcceptance_def
      Save_def Let_def escrowTransfers_simps events_emit projects_emit Stage5_Number_def
      split: sum.splits option.splits if_splits)


text \<open>
  C5, as the code has it. A run of the escrow-release pipeline that succeeds has moved
  \<open>TotalValue\<close> into the escrow, without the seed surplus (``transfer totalValue to the
  escrow, don't account for SeedMoneyRaised here''); it leaves the project stored with
  \<open>BalLeft = TotalValue + SeedMoneyRaised\<close> and at stage 5.
\<close>

theorem C5_escrow_release:
  assumes "sendRecipientAssets env w0 startTime polls w projIndex = Some (None, w')"
    and "projects w projIndex = Some p"
  shows "escrowTransfers (events w') = escrowTransfers (events w) @ [TotalValue p] \<and>
         (\<exists>q. projects w' (Index p) = Some q \<and>
              BalLeft q = TotalValue p + SeedMoneyRaised p \<and> Stage q = 5)"
proof -
  from assms(1) have "releaseAssets env w projIndex = (None, w')"
    by (auto simp: sendRecipientAssets_def split: prod.splits option.splits)
  from releaseAssets_success [OF assms(2) this] show ?thesis by blast
qed

text \<open>
  C5 as stated fails: with \<open>TotalValue = 1000\<close> and \<open>SeedMoneyRaised = 50\<close> the pipeline
  sees the lock open, succeeds, and has moved 1000 into the escrow, not 1050.
\<close>

theorem C5_seed_surplus_not_transferred_counterexample:
  "map_option Lock (projects fundedWorld 1) = Some False \<and>
   map_option fst
     (sendRecipientAssets demoEnv fundedWorld 0 [(10, projects fundedWorld)] fundedWorld 1)
     = Some None \<and>
   map_option (escrowTransfers \<circ> events \<circ> snd)
     (sendRecipientAssets demoEnv fundedWorld 0 [(10, projects fundedWorld)] fundedWorld 1)
     = Some [1000] \<and>
   map_option TotalValue (projects fundedWorld 1) = Some 1000 \<and>
   map_option SeedMoneyRaised (projects fundedWorld 1) = Some 50"
  by (simp add: sendRecipientAssets_def releaseAssets_def RetrieveProject_def
      RetrieveRecipient_def updateProjectAfterAcceptance_def Save_def Let_def emit_def
      escrowTransfers_simps fundedWorld_def demo_defs)

text \<open>The same run: 1000 transferred, \<open>BalLeft = 1050\<close>, stage 5.\<close>

theorem C5_escrow_release_witness:
  "map_option fst
     (sendRecipientAssets demoEnv fundedWorld 0 [(10, projects fundedWorld)] fundedWorld 1)
     = Some None \<and>
   map_option (escrowTransfers \<circ> events \<circ> snd)
     (sendRecipientAssets demoEnv fundedWorld 0 [(10, projects fundedWorld)] fundedWorld 1)
     = Some [1000] \<and>
   map_option (map_option BalLeft \<circ> (\<lambda>w. projects w 1) \<circ> snd)
     (sendRecipientAssets demoEnv fundedWorld 0 [(10, projects fundedWorld)] fundedWorld 1)
     = Some (Some 1050) \<and>
   map_option (map_option Stage \<circ> (\<lambda>w. projects w 1) \<circ> snd)
     (sendRecipientAssets demoEnv fundedWorld 0 [(10, projects fundedWorld)] fundedWorld 1)
     = Some (Some 5)"
proof -
  let ?r = "sendRecipientAssets demoEnv fundedWorld 0 [(10, projects fundedWorld)] fundedWorld 1"
  have "map_option fst ?r = Some None"
    by (simp add: sendRecipientAssets_def releaseAssets_def RetrieveProject_def
      RetrieveRecipient_def updateProjectAfterAcceptance_def Save_def Let_def emit_def
      fundedWorld_def demo_defs)
  then obtain w' where r: "?r = Some (None, w')" by (cases ?r) auto
  have p: "projects fundedWorld 1 = Some (demoProject\<lparr>MoneyRaised := 1000, LockPwd := ''pwd''\<rparr>)"
    by (simp add: fundedWorld_def)
  have e: "escrowTransfers (events fundedWorld) = []"
    by (simp add: fundedWorld_def demoWorld_def escrowTransfers_simps)
  from C5_escrow_release [OF r p] show ?thesis
    by (auto simp: r e demoProject_def zeroProject_def)
qed

subsection \<open>Escalation bands of the payback monitor\<close>

text \<open>
  C9, as the code has it. The chain selects one branch per cycle, the first whose guard
  holds: on track exactly for \<open>factor \<le> 1\<close>; the gentle reminder exactly for a factor
  above 1 strictly between \<open>NormalThreshold\<close> and \<open>AlertThreshold\<close>; the stern reminder
  for a factor outside that band, from \<open>SternAlertThreshold\<close> up to
  \<open>DisconnectionThreshold\<close>; disconnection for a factor outside the gentle band from
  \<open>DisconnectionThreshold\<close> on. When \<open>NormalThreshold \<le> 1\<close> and
  \<open>SternAlertThreshold \<le> AlertThreshold\<close>, every factor above 1 falls into a band.
\<close>

theorem C9_escalation_bands:
  "(escalation env factor = OnTrack \<longleftrightarrow> factor \<le> 1) \<and>
   (escalation env factor = GentleReminder \<longleftrightarrow>
      1 < factor \<and> NormalThreshold env < factor \<and> factor < AlertThreshold env) \<and>
   (escalation env factor = SternReminder \<longleftrightarrow>
      1 < factor \<and> \<not> (NormalThreshold env < factor \<and> factor < AlertThreshold env) \<and>
      SternAlertThreshold env \<le> factor \<and> factor < DisconnectionThreshold env) \<and>
   (escalation env factor = Disconnection \<longleftrightarrow>
      1 < factor \<and> \<not> (NormalThreshold env < factor \<and> factor < AlertThreshold env) \<and>
      DisconnectionThreshold env \<le> factor) \<and>
   (NormalThreshold env \<le> 1 \<and> SternAlertThreshold env \<le> AlertThreshold env \<and> 1 < factor
      \<longrightarrow> escalation env factor \<noteq> NoBand)"
  by (auto simp: escalation_def)

text \<open>
  C9 as stated fails: with the thresholds 1, 2, 4, 6 the factor 3 is above 1 and
  triggers no band.
\<close>

theorem C9_gap_between_bands_counterexample:
  "NormalThreshold demoEnv = 1 \<and> AlertThreshold demoEnv = 2 \<and>
   SternAlertThreshold demoEnv = 4 \<and> DisconnectionThreshold demoEnv = 6 \<and>
   (1::real) < 3 \<and> escalation demoEnv 3 = NoBand"
  by (simp add: escalation_def demoEnv_def)

text \<open>Thresholds 1, 2, 2, 3: one factor in each band.\<close>

theorem C9_escalation_bands_witness:
  "NormalThreshold demoEnvContiguous \<le> 1 \<and>
   SternAlertThreshold demoEnvContiguous \<le> AlertThreshold demoEnvContiguous \<and>
   escalation demoEnvContiguous (1 / 2) = OnTrack \<and>
   escalation demoEnvContiguous (3 / 2) = GentleReminder \<and>
   escalation demoEnvContiguous (5 / 2) = SternReminder \<and>
   escalation demoEnvContiguous 7 = Disconnection"
  using C9_escalation_bands [of demoEnvContiguous "1 / 2"]
    C9_escalation_bands [of demoEnvContiguous "3 / 2"]
    C9_escalation_bands [of demoEnvContiguous "5 / 2"]
    C9_escalation_bands [of demoEnvContiguous 7]
  by (simp add: demoEnvContiguous_def demoEnv_def)

subsection \<open>Recomputation of the investor map\<close>









subsection \<open>Completion of the raise\<close>










end
